theory Spec2Isabelle
  imports Main
begin

section \<open>Observable effects, errors and process exit\<close>

text \<open>
  The functions of \<^verbatim>\<open>main.go\<close> write to the console through \<^verbatim>\<open>fmt.Println\<close> and the
  \<^verbatim>\<open>log\<close> package and call one collaborator, the file provider. Each model returns,
  next to the value the Go function returns, the list of these effects in the order the
  code performs them.
\<close>

datatype effect =
    Println
  | Infof string
  | Printf string
  | Warnf string
  | Errorf string
  | LocalPathCall string

text \<open>A Go \<^verbatim>\<open>error\<close> value, identified with its message.\<close>

datatype error = Error string

text \<open>\<^verbatim>\<open>os.Exit(code)\<close>: the process ends and nothing is returned to the caller.\<close>

datatype exit = Exit nat

definition projectDirArg :: string where
  "projectDirArg = ''--project-directory''"

record Config =
  GithubAccessToken :: string
  CarthageCommand :: string
  CarthageOptions :: string
  SourceDir :: string
  Xcconfig :: string
  XcconfigFromEnv :: string
  VerboseLog :: bool

text \<open>\<^verbatim>\<open>fail\<close>: one error line, then exit status 1.\<close>

definition fail :: "string \<Rightarrow> (exit + 'a) \<times> effect list" where
  "fail message = (Inl (Exit 1), [Errorf message])"

section \<open>parseProjectDir\<close>

text \<open>
  The \<^verbatim>\<open>for ... range\<close> loop of \<^verbatim>\<open>parseProjectDir\<close>, with its two local variables as
  arguments. \<^verbatim>\<open>continue\<close> is the recursive call on the remaining options, \<^verbatim>\<open>break\<close>
  returns at once.
\<close>

fun parseProjectDir_loop :: "string \<Rightarrow> bool \<Rightarrow> string list \<Rightarrow> string \<times> effect list" where
  "parseProjectDir_loop projectDir isNextOptionProjectDir [] = (projectDir, [])"
| "parseProjectDir_loop projectDir isNextOptionProjectDir (option # rest) =
     (if option = projectDirArg then parseProjectDir_loop projectDir True rest
      else if isNextOptionProjectDir then
        (option,
         [Println,
          Infof (''--project-directory flag found with value: '' @ option),
          Printf (''using '' @ option @ '' as working directory'')])
      else parseProjectDir_loop projectDir isNextOptionProjectDir rest)"

text \<open>What the loop prints when it takes a token as the project directory.\<close>

definition foundEffects :: "string \<Rightarrow> effect list" where
  "foundEffects projectDir =
     [Println,
      Infof (''--project-directory flag found with value: '' @ projectDir),
      Printf (''using '' @ projectDir @ '' as working directory'')]"

definition parseProjectDir :: "string \<Rightarrow> string list \<Rightarrow> string \<times> effect list" where
  "parseProjectDir originalDir customCarthageOptions =
     parseProjectDir_loop originalDir False customCarthageOptions"

section \<open>parseXCConfigPath\<close>

text \<open>
  The \<^verbatim>\<open>FileProvider\<close> interface has the single method \<^verbatim>\<open>LocalPath\<close>; an implementation
  is the function it computes, and each call is recorded as a \<^const>\<open>LocalPathCall\<close>.
\<close>

type_synonym FileProvider = "string \<Rightarrow> error + string"

definition xcconfigWarning :: string where
  "xcconfigWarning =
     ''Both `xcconfig` input and `XCODE_XCCONFIG_FILE` are set. Using `xcconfig` input.''"

text \<open>
  The first \<^verbatim>\<open>if\<close> of the source computes \<^verbatim>\<open>pathToUse\<close> or returns the provider's error;
  the second \<^verbatim>\<open>if\<close> runs on the value of \<^verbatim>\<open>pathToUse\<close> it left.
\<close>

definition parseXCConfigPath ::
  "string \<Rightarrow> string \<Rightarrow> FileProvider \<Rightarrow> (error + string) \<times> effect list" where
  "parseXCConfigPath pathFromStepInput pathFromEnv fileProvider =
     (case (if pathFromStepInput \<noteq> []
            then (fileProvider pathFromStepInput, [LocalPathCall pathFromStepInput])
            else (Inr [], []))
      of (Inl err, effects) \<Rightarrow> (Inl err, effects)
       | (Inr pathToUse, effects) \<Rightarrow>
           (if pathFromEnv \<noteq> [] then
              (if pathToUse \<noteq> [] then (Inr pathToUse, effects @ [Warnf xcconfigWarning])
               else (Inr pathFromEnv, effects))
            else (Inr pathToUse, effects)))"

fun isWarnf :: "effect \<Rightarrow> bool" where
  "isWarnf (Warnf message) = True"
| "isWarnf other = False"

fun localPathCalls :: "effect list \<Rightarrow> string list" where
  "localPathCalls [] = []"
| "localPathCalls (LocalPathCall path # effects) = path # localPathCalls effects"
| "localPathCalls (other # effects) = localPathCalls effects"

section \<open>parseCarthageOptions\<close>

text \<open>
  \<^verbatim>\<open>shellquote.Split\<close> belongs to an external package and is the first argument of the
  model. The format string of the \<^verbatim>\<open>fail\<close> call has two verbs and one operand, so
  Go's formatter prints \<^verbatim>\<open>%!s(MISSING)\<close> for the second.
\<close>

definition parseCarthageOptions ::
  "(string \<Rightarrow> error + string list) \<Rightarrow> 'a Config_scheme \<Rightarrow> (exit + string list) \<times> effect list" where
  "parseCarthageOptions Split config =
     (if CarthageOptions config \<noteq> [] then
        (case Split (CarthageOptions config) of
           Inl err \<Rightarrow>
             fail (''Failed to shell split CarthageOptions ('' @ CarthageOptions config
                   @ ''), error: %!s(MISSING)'')
         | Inr options \<Rightarrow> (Inr options, []))
      else (Inr [], []))"

section \<open>getCarthageVersion\<close>

definition newline :: char where
  "newline = CHR 0x0A"

text \<open>\<^verbatim>\<open>strings.Split(s, sep)\<close> for a separator of one byte.\<close>

fun strings_Split :: "string \<Rightarrow> char \<Rightarrow> string list" where
  "strings_Split [] sep = [[]]"
| "strings_Split (c # s) sep =
     (if c = sep then [] # strings_Split s sep
      else (case strings_Split s sep of
              [] \<Rightarrow> [[c]]
            | piece # pieces \<Rightarrow> (c # piece) # pieces))"

text \<open>
  \<^verbatim>\<open>version.NewVersion\<close> (external package) is the first argument, the result of
  \<^verbatim>\<open>cmd.RunAndReturnTrimmedCombinedOutput()\<close> the second. The loop returns at the first
  line for which \<^verbatim>\<open>NewVersion\<close> gives no error.
\<close>

fun getCarthageVersion_loop :: "(string \<Rightarrow> error + 'v) \<Rightarrow> string \<Rightarrow> string list \<Rightarrow> error + 'v" where
  "getCarthageVersion_loop NewVersion out [] =
     Inl (Error (''failed to parse `$ carthage version` output: '' @ out))"
| "getCarthageVersion_loop NewVersion out (outLine # rest) =
     (case NewVersion outLine of
        Inr currentVersion \<Rightarrow> Inr currentVersion
      | Inl err \<Rightarrow> getCarthageVersion_loop NewVersion out rest)"

definition getCarthageVersion :: "(string \<Rightarrow> error + 'v) \<Rightarrow> error + string \<Rightarrow> error + 'v" where
  "getCarthageVersion NewVersion cmd =
     (case cmd of
        Inl err \<Rightarrow> Inl err
      | Inr out \<Rightarrow> getCarthageVersion_loop NewVersion out (strings_Split out newline))"

section \<open>External collaborators, modelled from the specification\<close>

subsection \<open>Shell word splitting\<close>

text \<open>
  Modelled from the spec: \<^verbatim>\<open>shellquote.Split\<close>, of the external package
  \<^verbatim>\<open>github.com/kballard/go-shellquote\<close>, which is not among the sources. The spec says
  that the raw string is split "using POSIX shell quoting rules (so quoted substrings with
  embedded spaces remain single tokens)" and that splitting fails "on unbalanced
  quoting". The rules are: space, tab and newline separate words outside quotes; a
  backslash outside quotes keeps the next byte and removes a following newline; single
  quotes keep everything up to the closing quote; inside double quotes a backslash
  escapes only \<^verbatim>\<open>$\<close>, the backquote, the double quote, the backslash and the newline. A
  string that ends inside a quotation or right after a backslash is an error.
\<close>

datatype scan = Between | Raw string | Single string | Double string

definition splitChars :: string where
  "splitChars = [CHR '' '', CHR 0x0A, CHR 0x09]"

definition singleChar :: char where
  "singleChar = CHR 0x27"

definition doubleChar :: char where
  "doubleChar = CHR 0x22"

definition escapeChar :: char where
  "escapeChar = CHR 0x5C"

definition doubleEscapeChars :: string where
  "doubleEscapeChars = [CHR 0x24, CHR 0x60, CHR 0x22, CHR 0x0A, CHR 0x5C]"

definition UnterminatedSingleQuoteError :: error where
  "UnterminatedSingleQuoteError = Error ''Unterminated single-quoted string''"

definition UnterminatedDoubleQuoteError :: error where
  "UnterminatedDoubleQuoteError = Error ''Unterminated double-quoted string''"

definition UnterminatedEscapeError :: error where
  "UnterminatedEscapeError = Error ''Unterminated backslash-escape''"

text \<open>Modelled from the spec: the scanner of \<^verbatim>\<open>shellquote.Split\<close>, one byte at a time, with the
  words finished so far, the quoting state and the word in progress.\<close>

fun shellquote_scan :: "string list \<Rightarrow> scan \<Rightarrow> string \<Rightarrow> error + string list" where
  "shellquote_scan words Between [] = Inr words"
| "shellquote_scan words (Raw buf) [] = Inr (words @ [buf])"
| "shellquote_scan words (Single buf) [] = Inl UnterminatedSingleQuoteError"
| "shellquote_scan words (Double buf) [] = Inl UnterminatedDoubleQuoteError"
| "shellquote_scan words Between (c # input) =
     (if c \<in> set splitChars then shellquote_scan words Between input
      else if c = escapeChar then
        (case input of
           [] \<Rightarrow> Inl UnterminatedEscapeError
         | c2 # next \<Rightarrow>
             if c2 = newline then shellquote_scan words Between next
             else shellquote_scan words (Raw [c2]) next)
      else if c = singleChar then shellquote_scan words (Single []) input
      else if c = doubleChar then shellquote_scan words (Double []) input
      else shellquote_scan words (Raw [c]) input)"
| "shellquote_scan words (Raw buf) (c # input) =
     (if c = singleChar then shellquote_scan words (Single buf) input
      else if c = doubleChar then shellquote_scan words (Double buf) input
      else if c = escapeChar then
        (case input of
           [] \<Rightarrow> Inl UnterminatedEscapeError
         | c2 # next \<Rightarrow>
             if c2 = newline then shellquote_scan words (Raw buf) next
             else shellquote_scan words (Raw (buf @ [c2])) next)
      else if c \<in> set splitChars then shellquote_scan (words @ [buf]) Between input
      else shellquote_scan words (Raw (buf @ [c])) input)"
| "shellquote_scan words (Single buf) (c # input) =
     (if c = singleChar then shellquote_scan words (Raw buf) input
      else shellquote_scan words (Single (buf @ [c])) input)"
| "shellquote_scan words (Double buf) (c # input) =
     (if c = doubleChar then shellquote_scan words (Raw buf) input
      else if c = escapeChar then
        (case input of
           [] \<Rightarrow> Inl UnterminatedDoubleQuoteError
         | c2 # next \<Rightarrow>
             if c2 \<in> set doubleEscapeChars then
               (if c2 = newline then shellquote_scan words (Double buf) next
                else shellquote_scan words (Double (buf @ [c2])) next)
             else shellquote_scan words (Double (buf @ [c, c2])) next)
      else shellquote_scan words (Double (buf @ [c])) input)"

text \<open>Modelled from the spec: \<^verbatim>\<open>shellquote.Split\<close>, the scan from between words with no word yet.\<close>

definition shellquote_Split :: "string \<Rightarrow> error + string list" where
  "shellquote_Split input = shellquote_scan [] Between input"

subsection \<open>Version parsing\<close>

text \<open>
  Modelled from the spec: \<^verbatim>\<open>version.NewVersion\<close>, of the external package
  \<^verbatim>\<open>github.com/hashicorp/go-version\<close>, which is not among the sources. The spec only
  says that a line "parses as a valid semantic version"; the model accepts the numeric
  core of a version, decimal numbers separated by dots, and returns the numbers.
\<close>

definition isDigit :: "char \<Rightarrow> bool" where
  "isDigit c = (c \<in> set ''0123456789'')"

definition atoi :: "string \<Rightarrow> nat" where
  "atoi digits = foldl (\<lambda>n c. 10 * n + (of_char c - 48)) 0 digits"

text \<open>Modelled from the spec: \<^verbatim>\<open>version.NewVersion\<close>, restricted to dotted decimal numbers.\<close>

definition version_NewVersion :: "string \<Rightarrow> error + nat list" where
  "version_NewVersion v =
     (let segments = strings_Split v (CHR ''.'') in
      if list_all (\<lambda>segment. segment \<noteq> [] \<and> list_all isDigit segment) segments
      then Inr (map atoi segments)
      else Inl (Error (''Malformed version: '' @ v)))"

section \<open>The cache layer, modelled from the specification\<close>

subsection \<open>Project fingerprint\<close>

text \<open>
  Modelled from the spec: \<^verbatim>\<open>buildFingerprint\<close> of the package \<^verbatim>\<open>cachedcarthage\<close>, which is
  part of this repository but not among the sources. Section 4.3 of the spec: it reads the
  dependency manifest and the resolved lock file, both under the project directory, and,
  if the override path is non-empty, the override file; a missing file is not an error,
  "its absence is itself part of the fingerprint"; all of them and the toolchain version
  string go into one digest, in the fixed order manifest, lock, override, toolchain.
  The file system is a map from paths to contents, an input is \<open>None\<close> when the file is
  absent. The digest function and the two file names are not given by the spec and are
  arguments.
\<close>

type_synonym filesystem = "string \<Rightarrow> string option"

record 'fp fingerprinting =
  digest :: "string option list \<Rightarrow> 'fp"
  manifestName :: string
  lockName :: string

text \<open>Modelled from the spec: the inputs of the digest of \<^verbatim>\<open>buildFingerprint\<close>, in their fixed order.\<close>

definition fingerprintInputs ::
  "('fp, 'x) fingerprinting_scheme \<Rightarrow> filesystem \<Rightarrow> string \<Rightarrow> string \<Rightarrow> string \<Rightarrow> string option list" where
  "fingerprintInputs fp files projectDir toolchainVersion configOverridePath =
     [files (projectDir @ ''/'' @ manifestName fp),
      files (projectDir @ ''/'' @ lockName fp),
      (if configOverridePath \<noteq> [] then files configOverridePath else None),
      Some toolchainVersion]"

text \<open>Modelled from the spec: \<^verbatim>\<open>buildFingerprint\<close>, the digest of the inputs.\<close>

definition buildFingerprint ::
  "('fp, 'x) fingerprinting_scheme \<Rightarrow> filesystem \<Rightarrow> string \<Rightarrow> string \<Rightarrow> string \<Rightarrow> 'fp" where
  "buildFingerprint fp files projectDir toolchainVersion configOverridePath =
     digest fp (fingerprintInputs fp files projectDir toolchainVersion configOverridePath)"

subsection \<open>Cache decision engine\<close>

text \<open>
  Modelled from the spec: the run of the cache decision engine (\<^verbatim>\<open>Runner.Run\<close> of the
  package \<^verbatim>\<open>cachedcarthage\<close>, part of this repository but not among the sources), after
  section 4.4 of the spec. The stores hold the persisted fingerprint and the artifact
  payload. The decision is \<open>Hit\<close> if the prior fingerprint exists, equals the current one
  and the payload is present and restorable, and \<open>Miss\<close> otherwise. On \<open>Hit\<close> the build
  command is not invoked. On \<open>Miss\<close> it is invoked once; only if it succeeds are the new
  fingerprint persisted and the build outputs registered; if it fails both stores are
  left as they were. The result of the external build command is an argument.
\<close>

datatype decision = Unknown | Hit | Miss

datatype cache_effect = LoadState | RestoreArtifacts | InvokeBuild | PersistState | RegisterArtifacts

record ('fp, 'payload) stores =
  persistedState :: "'fp option"
  artifactCache :: "'payload option"

text \<open>Modelled from the spec: the decision of step 3 of section 4.4, \<open>Hit\<close> or \<open>Miss\<close>.\<close>

definition decide :: "('payload \<Rightarrow> bool) \<Rightarrow> ('fp, 'payload) stores \<Rightarrow> 'fp \<Rightarrow> decision" where
  "decide restorable s current =
     (case persistedState s of
        None \<Rightarrow> Miss
      | Some prior \<Rightarrow>
          (if prior = current
              \<and> (case artifactCache s of None \<Rightarrow> False | Some payload \<Rightarrow> restorable payload)
           then Hit else Miss))"

text \<open>Modelled from the spec: one run of the engine, steps 1 to 4 of section 4.4, returning the
  outcome, the stores after the run and the store and build operations performed.\<close>

definition run ::
  "('payload \<Rightarrow> bool) \<Rightarrow> error + 'payload \<Rightarrow> ('fp, 'payload) stores \<Rightarrow> 'fp \<Rightarrow>
   (error + decision) \<times> ('fp, 'payload) stores \<times> cache_effect list" where
  "run restorable build s current =
     (if decide restorable s current = Hit then (Inr Hit, s, [LoadState, RestoreArtifacts])
      else
        (case build of
           Inl err \<Rightarrow> (Inl err, s, [LoadState, InvokeBuild])
         | Inr outputs \<Rightarrow>
             (Inr Miss,
              s\<lparr>persistedState := Some current, artifactCache := Some outputs\<rparr>,
              [LoadState, InvokeBuild, PersistState, RegisterArtifacts])))"

section \<open>Sample inputs\<close>

text \<open>Concrete collaborators and inputs, on which the theorems below are instantiated.\<close>

definition emptyPathProvider :: FileProvider where
  "emptyPathProvider path = Inr []"

definition localFileProvider :: FileProvider where
  "localFileProvider path = Inr (''/tmp/'' @ path)"

definition failingProvider :: FileProvider where
  "failingProvider path = Inl (Error (''download failed: '' @ path))"

definition scenarioOptions :: string where
  "scenarioOptions =
     ''--platform iOS --project-directory '' @ [doubleChar] @ ''My Project'' @ [doubleChar]"

definition scenarioTokens :: "string list" where
  "scenarioTokens = [''--platform'', ''iOS'', ''--project-directory'', ''My Project'']"


definition scenarioVersionOutput :: string where
  "scenarioVersionOutput = ''carthage version'' @ [newline] @ ''0.38.0'' @ [newline]"

text \<open>The same output as \<^verbatim>\<open>RunAndReturnTrimmedCombinedOutput\<close> hands it over, trimmed.\<close>

definition scenarioVersionOutputTrimmed :: string where
  "scenarioVersionOutputTrimmed = ''carthage version'' @ [newline] @ ''0.38.0''"

definition sampleConfig :: Config where
  "sampleConfig =
     \<lparr>GithubAccessToken = [], CarthageCommand = ''bootstrap'',
      CarthageOptions = scenarioOptions, SourceDir = ''/src'', Xcconfig = [],
      XcconfigFromEnv = [], VerboseLog = False\<rparr>"

definition sampleFingerprinting :: "string option list fingerprinting" where
  "sampleFingerprinting =
     \<lparr>digest = (\<lambda>inputs. inputs), manifestName = ''Cartfile'',
      lockName = ''Cartfile.resolved''\<rparr>"

definition filesA :: filesystem where
  "filesA =
     [''/a/Cartfile'' \<mapsto> ''github x/y'',
      ''/a/Cartfile.resolved'' \<mapsto> ''github x/y 1.0'',
      ''/a/settings.xcconfig'' \<mapsto> ''SWIFT_VERSION = 5'']"

definition filesB :: filesystem where
  "filesB =
     [''/b/Cartfile'' \<mapsto> ''github x/y'',
      ''/b/Cartfile.resolved'' \<mapsto> ''github x/y 1.0'',
      ''/ci/override.xcconfig'' \<mapsto> ''SWIFT_VERSION = 5'',
      ''/b/README'' \<mapsto> ''notes'']"

definition sampleStores :: "(string, string) stores" where
  "sampleStores =
     \<lparr>persistedState = Some ''fingerprint-1'', artifactCache = Some ''payload-1''\<rparr>"

section \<open>Facts about the loops\<close>

lemma loop_no_flag:
  "projectDirArg \<notin> set pre \<Longrightarrow>
   parseProjectDir_loop d False (pre @ rest) = parseProjectDir_loop d False rest"
  by (induction pre) auto

lemma loop_skip_flags:
  "parseProjectDir_loop d b (replicate n projectDirArg @ rest) =
   (if n = 0 then parseProjectDir_loop d b rest else parseProjectDir_loop d True rest)"
  by (induction n arbitrary: b) auto

lemma loop_trailing_flag:
  "parseProjectDir_loop d b (opts @ [projectDirArg]) = parseProjectDir_loop d b opts"
  by (induction opts arbitrary: b) auto

lemma loop_result_range:
  "fst (parseProjectDir_loop d b opts) \<in> insert d (set opts - {projectDirArg})"
  by (induction opts arbitrary: b) auto

lemma loop_find:
  "getCarthageVersion_loop NewVersion out outLines =
     (case find (\<lambda>outLine. \<not> isl (NewVersion outLine)) outLines of
        Some outLine \<Rightarrow> NewVersion outLine
      | None \<Rightarrow> Inl (Error (''failed to parse `$ carthage version` output: '' @ out)))"
  by (induction outLines) (auto split: sum.splits)

lemma scenario_lines:
  "strings_Split scenarioVersionOutput newline = [''carthage version'', ''0.38.0'', []]"
  by (simp add: scenarioVersionOutput_def newline_def)

lemma scenario_lines_trimmed:
  "strings_Split scenarioVersionOutputTrimmed newline = [''carthage version'', ''0.38.0'']"
  by (simp add: scenarioVersionOutputTrimmed_def newline_def)

section \<open>Facts about the modelled word splitter\<close>

lemma scenario_split:
  "shellquote_Split scenarioOptions = Inr scenarioTokens"
  by (simp add: scenarioOptions_def scenarioTokens_def shellquote_Split_def splitChars_def
      singleChar_def doubleChar_def escapeChar_def doubleEscapeChars_def newline_def)


text \<open>A double-quoted body without quote or backslash is one word, spaces included.\<close>

lemma double_quoted_body:
  "doubleChar \<notin> set body \<Longrightarrow> escapeChar \<notin> set body \<Longrightarrow>
   shellquote_scan words (Double buf) (body @ rest) =
   shellquote_scan words (Double (buf @ body)) rest"
  by (induction body arbitrary: buf) auto

lemma double_quoted_word:
  "doubleChar \<notin> set body \<Longrightarrow> escapeChar \<notin> set body \<Longrightarrow>
   shellquote_Split (doubleChar # body @ [doubleChar]) = Inr [body]"
  using double_quoted_body [of body "[]" "[]" "[doubleChar]"]
  by (simp add: shellquote_Split_def splitChars_def singleChar_def doubleChar_def escapeChar_def)

text \<open>A quotation that is not closed is an error.\<close>

lemma double_unterminated:
  "doubleChar \<notin> set body \<Longrightarrow> escapeChar \<notin> set body \<Longrightarrow>
   shellquote_scan words (Double buf) body = Inl UnterminatedDoubleQuoteError"
  using double_quoted_body [of body words buf "[]"] by simp

lemma single_unterminated:
  "singleChar \<notin> set body \<Longrightarrow>
   shellquote_scan words (Single buf) body = Inl UnterminatedSingleQuoteError"
  by (induction body arbitrary: buf) auto

section \<open>The project directory\<close>

text \<open>
  \<^bold>\<open>C1\<close>, as the code has it. \<^verbatim>\<open>parseProjectDir\<close> scans the tokens in order. At the first
  token equal to \<^verbatim>\<open>--project-directory\<close> it skips the tokens equal to the flag literal
  that follow it directly (\<open>n\<close> of them, none in the usual case) and returns the next
  token \<open>v\<close> as the project directory, whatever the default \<open>d\<close> is; the tokens after
  \<open>v\<close>, later occurrences of the flag among them, have no effect.
\<close>

theorem parseProjectDir_value_after_first_flag:
  assumes "projectDirArg \<notin> set pre" and "v \<noteq> projectDirArg"
  shows "parseProjectDir d (pre @ projectDirArg # replicate n projectDirArg @ v # rest)
           = (v, foundEffects v)"
  using assms loop_skip_flags [of d True n "v # rest"]
  by (simp add: parseProjectDir_def loop_no_flag foundEffects_def)

theorem parseProjectDir_value_after_first_flag_witness:
  "projectDirArg \<notin> set [''--platform'', ''iOS''] \<and> ''My Project'' \<noteq> projectDirArg \<and>
   parseProjectDir ''/src''
     [''--platform'', ''iOS'', projectDirArg, ''My Project'', projectDirArg, ''Other'']
     = (''My Project'', foundEffects ''My Project'')"
  using parseProjectDir_value_after_first_flag
    [of "[''--platform'', ''iOS'']" "''My Project''" "''/src''" 0 "[projectDirArg, ''Other'']"]
  by (simp add: projectDirArg_def)

text \<open>
  C1 as the spec words it fails where the token right after the first flag is the flag
  literal again: that token, at index 1, is present and is not what is returned.
\<close>

theorem parseProjectDir_flag_after_flag_counterexample:
  "fst (parseProjectDir ''/src'' [projectDirArg, projectDirArg, ''X''])
     \<noteq> [projectDirArg, projectDirArg, ''X''] ! 1"
  by (simp add: parseProjectDir_def projectDirArg_def)

text \<open>
  \<^bold>\<open>C6\<close>. A flag literal as the last token has nothing after it and changes nothing: the
  result is that of the list without it. If it is the first occurrence of the flag, the
  result is the default directory, unchanged, and nothing is printed; the function has no
  error result.
\<close>

theorem parseProjectDir_flag_without_value:
  "parseProjectDir d (opts @ [projectDirArg]) = parseProjectDir d opts
   \<and> (projectDirArg \<notin> set opts \<longrightarrow> parseProjectDir d (opts @ [projectDirArg]) = (d, []))"
  using loop_no_flag [of opts d "[]"]
  by (simp add: parseProjectDir_def loop_trailing_flag)

theorem parseProjectDir_flag_without_value_witness:
  "projectDirArg \<notin> set [''--platform'', ''iOS''] \<and>
   parseProjectDir ''/src'' [''--platform'', ''iOS'', projectDirArg] = (''/src'', [])"
proof -
  have first: "projectDirArg \<notin> set [''--platform'', ''iOS'']"
    by (simp add: projectDirArg_def)
  from parseProjectDir_flag_without_value [of "''/src''" "[''--platform'', ''iOS'']"] first
  have "parseProjectDir ''/src'' ([''--platform'', ''iOS''] @ [projectDirArg]) = (''/src'', [])"
    by blast
  with first show ?thesis by simp
qed

text \<open>
  \<^bold>\<open>C10\<close>. A flag literal that follows a flag literal is a new occurrence of the flag, not
  the directory value: dropping one of the two changes nothing, and the tokens
  \<^verbatim>\<open>--project-directory --project-directory X\<close> give \<^verbatim>\<open>X\<close>. The flag literal is never
  taken from the tokens as the project directory: the result is the default directory, as
  it was passed in, or a token other than the flag literal, so it is the flag literal only
  if the default directory is.
\<close>

theorem parseProjectDir_never_flag_literal:
  "parseProjectDir d (projectDirArg # projectDirArg # rest)
     = parseProjectDir d (projectDirArg # rest)
   \<and> parseProjectDir d [projectDirArg, projectDirArg, ''X''] = (''X'', foundEffects ''X'')
   \<and> fst (parseProjectDir d opts) \<in> insert d (set opts - {projectDirArg})
   \<and> (d \<noteq> projectDirArg \<longrightarrow> fst (parseProjectDir d opts) \<noteq> projectDirArg)"
  using loop_result_range [of d False opts]
  by (auto simp add: parseProjectDir_def projectDirArg_def foundEffects_def)

theorem parseProjectDir_never_flag_literal_witness:
  "''/src'' \<noteq> projectDirArg
   \<and> fst (parseProjectDir ''/src'' [projectDirArg, projectDirArg, ''X'']) \<noteq> projectDirArg
   \<and> parseProjectDir ''/src'' [projectDirArg, projectDirArg, ''X''] = (''X'', foundEffects ''X'')"
proof -
  have default: "''/src'' \<noteq> projectDirArg"
    by (simp add: projectDirArg_def)
  from parseProjectDir_never_flag_literal
    [of "''/src''" "[]" "[projectDirArg, projectDirArg, ''X'']"] default
  show ?thesis by blast
qed

section \<open>The Carthage version\<close>

text \<open>
  \<^bold>\<open>C2\<close>. On the output \<open>out\<close> of the version command, \<^verbatim>\<open>getCarthageVersion\<close> splits \<open>out\<close>
  at newlines and returns the version of the first line that \<^verbatim>\<open>NewVersion\<close> parses; if
  there is none the result is an error whose message ends with \<open>out\<close> itself. For the
  output \<^verbatim>\<open>carthage version\<close>, \<^verbatim>\<open>0.38.0\<close> on two lines, with a parser that rejects the first
  line and reads \<open>v\<close> from the second, the result is \<open>v\<close>, with the final newline and
  without it.
\<close>

theorem getCarthageVersion_first_parsing_line:
  "getCarthageVersion NewVersion (Inr out) =
     (case find (\<lambda>outLine. \<not> isl (NewVersion outLine)) (strings_Split out newline) of
        Some outLine \<Rightarrow> NewVersion outLine
      | None \<Rightarrow> Inl (Error (''failed to parse `$ carthage version` output: '' @ out)))
   \<and> (NewVersion ''carthage version'' = Inl err \<longrightarrow> NewVersion ''0.38.0'' = Inr v \<longrightarrow>
        getCarthageVersion NewVersion (Inr scenarioVersionOutput) = Inr v
        \<and> getCarthageVersion NewVersion (Inr scenarioVersionOutputTrimmed) = Inr v)"
  by (simp add: getCarthageVersion_def loop_find scenario_lines scenario_lines_trimmed)

theorem getCarthageVersion_first_parsing_line_witness:
  "version_NewVersion ''carthage version'' = Inl (Error ''Malformed version: carthage version'')
   \<and> version_NewVersion ''0.38.0'' = Inr [0, 38, 0]
   \<and> getCarthageVersion version_NewVersion (Inr scenarioVersionOutput) = Inr [0, 38, 0]
   \<and> getCarthageVersion version_NewVersion (Inr scenarioVersionOutputTrimmed) = Inr [0, 38, 0]"
proof -
  have rejected:
    "version_NewVersion ''carthage version'' = Inl (Error ''Malformed version: carthage version'')"
    by (simp add: version_NewVersion_def isDigit_def)
  have accepted: "version_NewVersion ''0.38.0'' = Inr [0, 38, 0]"
    by (simp add: version_NewVersion_def isDigit_def atoi_def)
  from getCarthageVersion_first_parsing_line [of version_NewVersion scenarioVersionOutput]
    rejected accepted
  have "getCarthageVersion version_NewVersion (Inr scenarioVersionOutput) = Inr [0, 38, 0]
      \<and> getCarthageVersion version_NewVersion (Inr scenarioVersionOutputTrimmed) = Inr [0, 38, 0]"
    by blast
  with rejected accepted show ?thesis by blast
qed

section \<open>The xcconfig path\<close>

text \<open>
  \<^bold>\<open>C4\<close>, as the code has it. When the step input and the environment path are both
  non-empty and the file provider resolves the step input to a non-empty local path,
  \<^verbatim>\<open>parseXCConfigPath\<close> returns that local path, not the environment one, and logs exactly
  one warning. When only the environment path is set, it is returned.
\<close>

theorem parseXCConfigPath_explicit_wins:
  "(pathFromStepInput \<noteq> [] \<longrightarrow> pathFromEnv \<noteq> [] \<longrightarrow>
      fileProvider pathFromStepInput = Inr localPath \<longrightarrow> localPath \<noteq> [] \<longrightarrow>
      parseXCConfigPath pathFromStepInput pathFromEnv fileProvider
        = (Inr localPath, [LocalPathCall pathFromStepInput, Warnf xcconfigWarning]))
   \<and> (pathFromEnv \<noteq> [] \<longrightarrow>
      parseXCConfigPath [] pathFromEnv fileProvider = (Inr pathFromEnv, []))"
  by (simp add: parseXCConfigPath_def)

theorem parseXCConfigPath_explicit_wins_witness:
  "''a.xcconfig'' \<noteq> [] \<and> ''env.xcconfig'' \<noteq> []
   \<and> localFileProvider ''a.xcconfig'' = Inr ''/tmp/a.xcconfig'' \<and> ''/tmp/a.xcconfig'' \<noteq> []
   \<and> parseXCConfigPath ''a.xcconfig'' ''env.xcconfig'' localFileProvider
        = (Inr ''/tmp/a.xcconfig'', [LocalPathCall ''a.xcconfig'', Warnf xcconfigWarning])
   \<and> parseXCConfigPath [] ''env.xcconfig'' localFileProvider = (Inr ''env.xcconfig'', [])"
  using parseXCConfigPath_explicit_wins
    [of "''a.xcconfig''" "''env.xcconfig''" localFileProvider "''/tmp/a.xcconfig''"]
  by (simp add: localFileProvider_def)

text \<open>
  C4 as the spec words it fails for a provider that resolves the step input to the empty
  path: both paths are set, the environment path is returned and no warning is logged.
\<close>

theorem parseXCConfigPath_empty_local_path_counterexample:
  "fst (parseXCConfigPath ''a.xcconfig'' ''env.xcconfig'' emptyPathProvider)
     = Inr ''env.xcconfig''
   \<and> filter isWarnf (snd (parseXCConfigPath ''a.xcconfig'' ''env.xcconfig'' emptyPathProvider))
     = []"
  by (simp add: parseXCConfigPath_def emptyPathProvider_def)

text \<open>
  \<^bold>\<open>C9\<close>. The file provider is called for the step input only: once, on that path, if it
  is non-empty, and not at all otherwise. With an empty step input and a non-empty
  environment path, the environment path is returned as it is, with no error and no call.
  An error is returned only when the step input is non-empty.
\<close>

theorem parseXCConfigPath_provider_only_for_input:
  "localPathCalls (snd (parseXCConfigPath pathFromStepInput pathFromEnv fileProvider))
     = (if pathFromStepInput \<noteq> [] then [pathFromStepInput] else [])
   \<and> (pathFromStepInput = [] \<longrightarrow> pathFromEnv \<noteq> [] \<longrightarrow>
        parseXCConfigPath pathFromStepInput pathFromEnv fileProvider = (Inr pathFromEnv, []))
   \<and> (fst (parseXCConfigPath pathFromStepInput pathFromEnv fileProvider) = Inl err \<longrightarrow>
        pathFromStepInput \<noteq> [])"
  by (auto simp add: parseXCConfigPath_def split: sum.splits)

theorem parseXCConfigPath_provider_only_for_input_witness:
  "''env.xcconfig'' \<noteq> []
   \<and> parseXCConfigPath [] ''env.xcconfig'' failingProvider = (Inr ''env.xcconfig'', [])
   \<and> fst (parseXCConfigPath ''a.xcconfig'' ''env.xcconfig'' failingProvider)
       = Inl (Error ''download failed: a.xcconfig'')
   \<and> ''a.xcconfig'' \<noteq> []"
proof -
  have failed: "fst (parseXCConfigPath ''a.xcconfig'' ''env.xcconfig'' failingProvider)
       = Inl (Error ''download failed: a.xcconfig'')"
    by (simp add: parseXCConfigPath_def failingProvider_def)
  from parseXCConfigPath_provider_only_for_input
    [of "''a.xcconfig''" "''env.xcconfig''" failingProvider "Error ''download failed: a.xcconfig''"]
    failed
  have input: "''a.xcconfig'' \<noteq> []"
    by blast
  from parseXCConfigPath_provider_only_for_input [of "[]" "''env.xcconfig''" failingProvider]
  have "parseXCConfigPath [] ''env.xcconfig'' failingProvider = (Inr ''env.xcconfig'', [])"
    by simp
  with failed input show ?thesis by simp
qed

section \<open>The Carthage options\<close>

text \<open>
  \<^bold>\<open>C5\<close>. \<^verbatim>\<open>parseCarthageOptions\<close> returns the tokens into which the shell word splitter
  splits a non-empty option string. For the raw string
  \<^verbatim>\<open>--platform iOS --project-directory "My Project"\<close>, which the splitter splits into the
  four tokens \<^verbatim>\<open>--platform\<close>, \<^verbatim>\<open>iOS\<close>, \<^verbatim>\<open>--project-directory\<close>, \<^verbatim>\<open>My Project\<close>, these four
  tokens are returned, and \<^verbatim>\<open>parseProjectDir\<close> on them gives \<^verbatim>\<open>My Project\<close>.
\<close>

theorem parseCarthageOptions_scenario:
  "(CarthageOptions config \<noteq> [] \<longrightarrow> Split (CarthageOptions config) = Inr tokens \<longrightarrow>
      parseCarthageOptions Split config = (Inr tokens, []))
   \<and> (CarthageOptions config = scenarioOptions \<longrightarrow> Split scenarioOptions = Inr scenarioTokens \<longrightarrow>
      parseCarthageOptions Split config = (Inr scenarioTokens, [])
      \<and> fst (parseProjectDir d scenarioTokens) = ''My Project'')"
  by (simp add: parseCarthageOptions_def scenarioOptions_def scenarioTokens_def
      parseProjectDir_def projectDirArg_def)

theorem parseCarthageOptions_scenario_witness:
  "CarthageOptions sampleConfig = scenarioOptions
   \<and> shellquote_Split scenarioOptions = Inr scenarioTokens
   \<and> parseCarthageOptions shellquote_Split sampleConfig = (Inr scenarioTokens, [])
   \<and> fst (parseProjectDir (SourceDir sampleConfig) scenarioTokens) = ''My Project''"
proof -
  have options: "CarthageOptions sampleConfig = scenarioOptions"
    by (simp add: sampleConfig_def)
  from parseCarthageOptions_scenario
    [of sampleConfig shellquote_Split scenarioTokens "SourceDir sampleConfig"]
    options scenario_split
  have "parseCarthageOptions shellquote_Split sampleConfig = (Inr scenarioTokens, [])
      \<and> fst (parseProjectDir (SourceDir sampleConfig) scenarioTokens) = ''My Project''"
    by blast
  with options scenario_split show ?thesis by blast
qed



section \<open>The cache layer\<close>

text \<open>
  \<^bold>\<open>C3\<close>. On the \<open>Miss\<close> path, when the build command fails, the run returns the error and
  the stores after the run are the stores before it: neither the persisted state nor the
  artifact cache is written.
\<close>

theorem run_failed_build_leaves_stores:
  "decide restorable s current = Miss \<Longrightarrow> build = Inl err \<Longrightarrow>
   run restorable build s current = (Inl err, s, [LoadState, InvokeBuild])"
  by (simp add: run_def)

theorem run_failed_build_leaves_stores_witness:
  "decide (\<lambda>payload. True) sampleStores ''fingerprint-2'' = Miss
   \<and> run (\<lambda>payload. True) (Inl (Error ''exit status 1'')) sampleStores ''fingerprint-2''
       = (Inl (Error ''exit status 1''), sampleStores, [LoadState, InvokeBuild])"
proof -
  have miss: "decide (\<lambda>payload. True) sampleStores ''fingerprint-2'' = Miss"
    by (simp add: decide_def sampleStores_def)
  from run_failed_build_leaves_stores [OF miss refl] miss show ?thesis by simp
qed

text \<open>
  \<^bold>\<open>C8\<close>. Two runs whose manifest contents, lock-file contents, override-file contents and
  toolchain version string are the same compute the same fingerprint, wherever the files
  lie and whatever else the file systems hold; the fingerprint is the digest of these four
  inputs in the order manifest, lock, override, toolchain.
\<close>

theorem buildFingerprint_deterministic:
  assumes "files (projectDir @ ''/'' @ manifestName fp)
             = files' (projectDir' @ ''/'' @ manifestName fp)"
    and "files (projectDir @ ''/'' @ lockName fp) = files' (projectDir' @ ''/'' @ lockName fp)"
    and "(if configOverridePath \<noteq> [] then files configOverridePath else None)
           = (if configOverridePath' \<noteq> [] then files' configOverridePath' else None)"
    and "toolchainVersion = toolchainVersion'"
  shows "buildFingerprint fp files projectDir toolchainVersion configOverridePath
           = buildFingerprint fp files' projectDir' toolchainVersion' configOverridePath'
         \<and> buildFingerprint fp files projectDir toolchainVersion configOverridePath
           = digest fp [files (projectDir @ ''/'' @ manifestName fp),
                        files (projectDir @ ''/'' @ lockName fp),
                        (if configOverridePath \<noteq> [] then files configOverridePath else None),
                        Some toolchainVersion]"
  using assms by (simp add: buildFingerprint_def fingerprintInputs_def)

theorem buildFingerprint_deterministic_witness:
  "filesA (''/a'' @ ''/'' @ manifestName sampleFingerprinting)
     = filesB (''/b'' @ ''/'' @ manifestName sampleFingerprinting)
   \<and> filesA (''/a'' @ ''/'' @ lockName sampleFingerprinting)
     = filesB (''/b'' @ ''/'' @ lockName sampleFingerprinting)
   \<and> filesA ''/a/settings.xcconfig'' = filesB ''/ci/override.xcconfig''
   \<and> buildFingerprint sampleFingerprinting filesA ''/a'' ''swift 5.9'' ''/a/settings.xcconfig''
     = buildFingerprint sampleFingerprinting filesB ''/b'' ''swift 5.9'' ''/ci/override.xcconfig''"
proof -
  have manifest: "filesA (''/a'' @ ''/'' @ manifestName sampleFingerprinting)
     = filesB (''/b'' @ ''/'' @ manifestName sampleFingerprinting)"
    by (simp add: filesA_def filesB_def sampleFingerprinting_def)
  have lock: "filesA (''/a'' @ ''/'' @ lockName sampleFingerprinting)
     = filesB (''/b'' @ ''/'' @ lockName sampleFingerprinting)"
    by (simp add: filesA_def filesB_def sampleFingerprinting_def)
  have override: "filesA ''/a/settings.xcconfig'' = filesB ''/ci/override.xcconfig''"
    by (simp add: filesA_def filesB_def)
  then have override':
    "(if ''/a/settings.xcconfig'' \<noteq> [] then filesA ''/a/settings.xcconfig'' else None)
       = (if ''/ci/override.xcconfig'' \<noteq> [] then filesB ''/ci/override.xcconfig'' else None)"
    by simp
  from buildFingerprint_deterministic [OF manifest lock override' refl, of "''swift 5.9''"]
    manifest lock override
  show ?thesis by blast
qed

end
